theory Spec2Isabelle
  imports Complex_Main "HOL-Library.Sublist" "HOL-Library.Log_Nat"
begin

section \<open>Data model of \<open>IdentityService.ts\<close>\<close>

text \<open>
  The service \<open>IdentityService\<close> provisions identities of a marketplace profile. It
  talks to three collaborators: the wallet RPC client (\<open>coreRpcService\<close>), the
  profile service (\<open>profileService\<close>) and the identity repository
  (\<open>identityRepository\<close>). Every method is asynchronous and strictly sequential
  (each call is awaited), so a method is modelled as a function from the state before
  the call to a result and the state after it; an exception is the \<open>Inl\<close> branch
  of the result.
\<close>

datatype IdentityType = PROFILE | MARKET

text \<open>The argument of \<open>NotFoundException\<close>: the id, or the wallet name or address.\<close>

datatype lookup_key = IdKey nat | StrKey string

datatype error =
    NotFoundException lookup_key
  | ModelNotFoundException string
  | MessageException string
  | ValidationException
  | TypeError
  | RangeError
  | CollaboratorFailure string

text \<open>
  An identity row, as the Bookshelf model \<open>Identity\<close> and its JSON form
  \<open>resources.Identity\<close> carry it. The server-assigned timestamps are left out.
\<close>

record Identity =
  identity_id :: nat
  identity_profile_id :: nat
  identity_wallet :: string
  identity_address :: string
  identity_hdseedid :: "string option"
  identity_path :: "string option"
  identity_mnemonic :: "string option"
  identity_passphrase :: "string option"
  identity_type :: IdentityType

record IdentityCreateRequest =
  cr_profile_id :: nat
  cr_wallet :: string
  cr_address :: string
  cr_hdseedid :: "string option"
  cr_path :: "string option"
  cr_mnemonic :: "string option"
  cr_passphrase :: "string option"
  cr_type :: IdentityType

record IdentityUpdateRequest =
  upd_wallet :: string
  upd_address :: string
  upd_hdseedid :: "string option"
  upd_path :: "string option"
  upd_mnemonic :: "string option"
  upd_passphrase :: "string option"
  upd_type :: IdentityType

record Profile =
  profile_id :: nat
  profile_name :: string
  profile_Identities :: "Identity list"

text \<open>
  The RPC result shapes of \<open>omp-lib\<close> that the service reads. The wallet daemon
  reports \<open>current_master\<close> as a string and only on the current master key.
\<close>

record RpcExtKey =
  extkey_type :: string
  extkey_key_type :: string
  extkey_label :: string
  extkey_current_master :: "string option"
  extkey_evkey :: string
  extkey_path :: string

record RpcWallet =
  rpcwallet_name :: string

record RpcMnemonic =
  rpcmnemonic_mnemonic :: string

record RpcWalletInfo =
  walletinfo_hdseedid :: string

record RpcExtKeyResult =
  keyresult_id :: string
  keyresult_account :: string
  keyresult_key_info_path :: string

text \<open>A positional RPC parameter: the \<open>mnemonic\<close> call takes a mixed array.\<close>

datatype rpc_param = PStr string | PNum int | PBool bool

subsection \<open>The log of collaborator calls\<close>

text \<open>
  The state keeps a log (ghost state, oldest entry first) of every call to the wallet
  RPC client, with its arguments and its outcome, and of every write to the identity
  repository. Claims about which calls are made, in which order and with which
  arguments are statements about this log.
\<close>

datatype event =
    CreateAndLoadWalletEv string bool bool "error + RpcWallet"
  | MnemonicEv "rpc_param list" "error + RpcMnemonic"
  | ExtKeyGenesisImportEv string "rpc_param list" "error + unit"
  | ExtKeyListEv string bool "error + RpcExtKey list"
  | ExtKeyInfoEv string string string "error + RpcExtKeyResult"
  | ExtKeyAltVersionEv string "error + string"
  | ExtKeyImportEv string string string bool "error + RpcExtKeyResult"
  | ExtKeySetMasterEv string string "error + unit"
  | ExtKeyDeriveAccountEv string string "error + RpcExtKeyResult"
  | ExtKeySetDefaultAccountEv string string "error + unit"
  | GetNewAddressEv string "error + string"
  | GetWalletInfoEv string "error + RpcWalletInfo"
  | StoreCreateEv IdentityCreateRequest
  | StoreUpdateEv nat Identity

fun event_name :: "event \<Rightarrow> string" where
  "event_name (CreateAndLoadWalletEv _ _ _ _) = ''createAndLoadWallet''"
| "event_name (MnemonicEv _ _) = ''mnemonic''"
| "event_name (ExtKeyGenesisImportEv _ _ _) = ''extKeyGenesisImport''"
| "event_name (ExtKeyListEv _ _ _) = ''extKeyList''"
| "event_name (ExtKeyInfoEv _ _ _ _) = ''extKeyInfo''"
| "event_name (ExtKeyAltVersionEv _ _) = ''extKeyAltVersion''"
| "event_name (ExtKeyImportEv _ _ _ _ _) = ''extKeyImport''"
| "event_name (ExtKeySetMasterEv _ _ _) = ''extKeySetMaster''"
| "event_name (ExtKeyDeriveAccountEv _ _ _) = ''extKeyDeriveAccount''"
| "event_name (ExtKeySetDefaultAccountEv _ _ _) = ''extKeySetDefaultAccount''"
| "event_name (GetNewAddressEv _ _) = ''getNewAddress''"
| "event_name (GetWalletInfoEv _ _) = ''getWalletInfo''"
| "event_name (StoreCreateEv _) = ''identityRepository.create''"
| "event_name (StoreUpdateEv _ _) = ''identityRepository.update''"



subsection \<open>Numbers\<close>

text \<open>
  A JavaScript number that is finite and not negative: the IEEE 754 double
  \<open>mantissa * 2 ^ exponent\<close>, with a mantissa below \<open>2 ^ 53\<close> and an exponent of
  at least \<open>-1074\<close>. \<open>Math.random()\<close> returns such a number, below 1.
\<close>

datatype double = Double (mantissa: nat) (exponent: int)

definition double_val :: "double \<Rightarrow> real" where
  "double_val x = real (mantissa x) * 2 powi exponent x"

definition unit_double :: "double \<Rightarrow> bool" where
  "unit_double x \<longleftrightarrow> mantissa x < 2 ^ 53 \<and> - 1074 \<le> exponent x \<and> double_val x < 1"

text \<open>
  \<open>x * n\<close> for a double \<open>x\<close> and an array length \<open>n\<close> (an integer that is a
  double itself): the exact product \<open>mantissa x * n * 2 ^ exponent x\<close>, rounded to
  53 significant bits, to the nearest double and on a tie to the one with an even
  mantissa. A product below \<open>2 ^ 53\<close> of the mantissa and \<open>n\<close> needs no rounding.
  (A product of \<open>2 ^ 1024\<close> or more would be \<open>Infinity\<close>; a factor below 1 and
  an array length cannot reach it.)
\<close>

definition mul_length :: "double \<Rightarrow> nat \<Rightarrow> double" where
  "mul_length x n =
     (let p = mantissa x * n in
      if p < 2 ^ 53 then Double p (exponent x)
      else
        let k = floorlog 2 p - 53; q = p div 2 ^ k; r = p mod 2 ^ k
        in Double (if 2 ^ k < 2 * r \<or> (2 * r = 2 ^ k \<and> odd q) then Suc q else q)
                  (exponent x + int k))"

subsection \<open>State and collaborators\<close>

text \<open>
  \<open>node\<close> is the state of the collaborators whose code is outside the service (the
  wallet daemon behind the RPC client, the profile table), of any type \<open>'n\<close>.
  \<open>rng\<close> and \<open>rng_pos\<close> are the stream \<open>Math.random()\<close> draws from and the
  number of draws made so far. \<open>rows\<close> and \<open>next_id\<close> are the identity table.
\<close>

record 'n world =
  node :: 'n
  rng :: "nat \<Rightarrow> double"
  rng_pos :: nat
  rows :: "Identity list"
  next_id :: nat
  trace :: "event list"

text \<open>
  The collaborators the service is constructed with, as parameters: each RPC method
  maps the daemon's state to an outcome and a new state; the profile lookup reads it;
  the two validity predicates stand for the class-validator rules of the request
  classes, which \<open>@validate()\<close> enforces.
\<close>

record 'n env =
  rpc_createAndLoadWallet :: "string \<Rightarrow> bool \<Rightarrow> bool \<Rightarrow> 'n \<Rightarrow> (error + RpcWallet) \<times> 'n"
  rpc_mnemonic :: "rpc_param list \<Rightarrow> 'n \<Rightarrow> (error + RpcMnemonic) \<times> 'n"
  rpc_extKeyGenesisImport :: "string \<Rightarrow> rpc_param list \<Rightarrow> 'n \<Rightarrow> (error + unit) \<times> 'n"
  rpc_extKeyList :: "string \<Rightarrow> bool \<Rightarrow> 'n \<Rightarrow> (error + RpcExtKey list) \<times> 'n"
  rpc_extKeyInfo :: "string \<Rightarrow> string \<Rightarrow> string \<Rightarrow> 'n \<Rightarrow> (error + RpcExtKeyResult) \<times> 'n"
  rpc_extKeyAltVersion :: "string \<Rightarrow> 'n \<Rightarrow> (error + string) \<times> 'n"
  rpc_extKeyImport :: "string \<Rightarrow> string \<Rightarrow> string \<Rightarrow> bool \<Rightarrow> 'n \<Rightarrow> (error + RpcExtKeyResult) \<times> 'n"
  rpc_extKeySetMaster :: "string \<Rightarrow> string \<Rightarrow> 'n \<Rightarrow> (error + unit) \<times> 'n"
  rpc_extKeyDeriveAccount :: "string \<Rightarrow> string \<Rightarrow> 'n \<Rightarrow> (error + RpcExtKeyResult) \<times> 'n"
  rpc_extKeySetDefaultAccount :: "string \<Rightarrow> string \<Rightarrow> 'n \<Rightarrow> (error + unit) \<times> 'n"
  rpc_getNewAddress :: "string \<Rightarrow> 'n \<Rightarrow> (error + string) \<times> 'n"
  rpc_getWalletInfo :: "string \<Rightarrow> 'n \<Rightarrow> (error + RpcWalletInfo) \<times> 'n"
  profileService_findOne :: "nat \<Rightarrow> bool \<Rightarrow> 'n \<Rightarrow> error + Profile"
  valid_create :: "IdentityCreateRequest \<Rightarrow> bool"
  valid_update :: "IdentityUpdateRequest \<Rightarrow> bool"

subsection \<open>Sequencing with exceptions\<close>

type_synonym ('n, 'a) prog = "'n world \<Rightarrow> (error + 'a) \<times> 'n world"

definition returnE :: "'a \<Rightarrow> ('n, 'a) prog" where
  "returnE a s = (Inr a, s)"

definition throwE :: "error \<Rightarrow> ('n, 'a) prog" where
  "throwE e s = (Inl e, s)"

text \<open>\<open>await m\<close> followed by the rest of the method: an exception ends the method.\<close>

definition bindE :: "('n, 'a) prog \<Rightarrow> ('a \<Rightarrow> ('n, 'b) prog) \<Rightarrow> ('n, 'b) prog" where
  "bindE m f s = (case m s of (Inl e, s') \<Rightarrow> (Inl e, s') | (Inr a, s') \<Rightarrow> f a s')"

text \<open>One call through the RPC client: the daemon answers, the log records it.\<close>

definition rpc_call ::
  "('n \<Rightarrow> (error + 'a) \<times> 'n) \<Rightarrow> ((error + 'a) \<Rightarrow> event) \<Rightarrow> ('n, 'a) prog" where
  "rpc_call f ev s =
     (case f (node s) of (r, n') \<Rightarrow> (r, s\<lparr>node := n', trace := trace s @ [ev r]\<rparr>))"

definition coreRpc_createAndLoadWallet ::
  "'n env \<Rightarrow> string \<Rightarrow> bool \<Rightarrow> bool \<Rightarrow> ('n, RpcWallet) prog" where
  "coreRpc_createAndLoadWallet env name disablePrivateKeys blank =
     rpc_call (rpc_createAndLoadWallet env name disablePrivateKeys blank)
       (CreateAndLoadWalletEv name disablePrivateKeys blank)"

definition coreRpc_mnemonic :: "'n env \<Rightarrow> rpc_param list \<Rightarrow> ('n, RpcMnemonic) prog" where
  "coreRpc_mnemonic env params = rpc_call (rpc_mnemonic env params) (MnemonicEv params)"

definition coreRpc_extKeyGenesisImport ::
  "'n env \<Rightarrow> string \<Rightarrow> rpc_param list \<Rightarrow> ('n, unit) prog" where
  "coreRpc_extKeyGenesisImport env w params =
     rpc_call (rpc_extKeyGenesisImport env w params) (ExtKeyGenesisImportEv w params)"

definition coreRpc_extKeyList :: "'n env \<Rightarrow> string \<Rightarrow> bool \<Rightarrow> ('n, RpcExtKey list) prog" where
  "coreRpc_extKeyList env w showSecrets =
     rpc_call (rpc_extKeyList env w showSecrets) (ExtKeyListEv w showSecrets)"

definition coreRpc_extKeyInfo ::
  "'n env \<Rightarrow> string \<Rightarrow> string \<Rightarrow> string \<Rightarrow> ('n, RpcExtKeyResult) prog" where
  "coreRpc_extKeyInfo env w key path =
     rpc_call (rpc_extKeyInfo env w key path) (ExtKeyInfoEv w key path)"

definition coreRpc_extKeyAltVersion :: "'n env \<Rightarrow> string \<Rightarrow> ('n, string) prog" where
  "coreRpc_extKeyAltVersion env key =
     rpc_call (rpc_extKeyAltVersion env key) (ExtKeyAltVersionEv key)"

definition coreRpc_extKeyImport ::
  "'n env \<Rightarrow> string \<Rightarrow> string \<Rightarrow> string \<Rightarrow> bool \<Rightarrow> ('n, RpcExtKeyResult) prog" where
  "coreRpc_extKeyImport env w key label bip44 =
     rpc_call (rpc_extKeyImport env w key label bip44) (ExtKeyImportEv w key label bip44)"

definition coreRpc_extKeySetMaster :: "'n env \<Rightarrow> string \<Rightarrow> string \<Rightarrow> ('n, unit) prog" where
  "coreRpc_extKeySetMaster env w keyId =
     rpc_call (rpc_extKeySetMaster env w keyId) (ExtKeySetMasterEv w keyId)"

definition coreRpc_extKeyDeriveAccount ::
  "'n env \<Rightarrow> string \<Rightarrow> string \<Rightarrow> ('n, RpcExtKeyResult) prog" where
  "coreRpc_extKeyDeriveAccount env w label =
     rpc_call (rpc_extKeyDeriveAccount env w label) (ExtKeyDeriveAccountEv w label)"

definition coreRpc_extKeySetDefaultAccount ::
  "'n env \<Rightarrow> string \<Rightarrow> string \<Rightarrow> ('n, unit) prog" where
  "coreRpc_extKeySetDefaultAccount env w account =
     rpc_call (rpc_extKeySetDefaultAccount env w account) (ExtKeySetDefaultAccountEv w account)"

definition coreRpc_getNewAddress :: "'n env \<Rightarrow> string \<Rightarrow> ('n, string) prog" where
  "coreRpc_getNewAddress env w = rpc_call (rpc_getNewAddress env w) (GetNewAddressEv w)"

definition coreRpc_getWalletInfo :: "'n env \<Rightarrow> string \<Rightarrow> ('n, RpcWalletInfo) prog" where
  "coreRpc_getWalletInfo env w = rpc_call (rpc_getWalletInfo env w) (GetWalletInfoEv w)"

section \<open>The identity repository\<close>

text \<open>
  Modelled from the spec: \<open>IdentityRepository\<close> (the persistence interface of the
  spec's section 6; its code is not part of the sources at hand). The spec gives
  create(record), findById(id), findByWalletName(name), findByAddress(address),
  findAllByProfileId(id), update(id, record) and delete(id), "each returning the stored
  representation or an absence signal"; ids are assigned on creation. The table is the
  list \<open>rows\<close>; the absence signal (\<open>null\<close>) is \<open>None\<close>. The flag
  \<open>withRelated\<close> asks for eager loading of related rows, which are not modelled.
\<close>

text \<open>Modelled from the spec: the repository's listing of all stored records.\<close>

definition repo_findAll :: "'n world \<Rightarrow> Identity list" where
  "repo_findAll s = rows s"

text \<open>Modelled from the spec: findAllByProfileId(id) of the persistence interface.\<close>

definition repo_findAllByProfileId :: "nat \<Rightarrow> bool \<Rightarrow> 'n world \<Rightarrow> Identity list" where
  "repo_findAllByProfileId profileId withRelated s =
     filter (\<lambda>r. identity_profile_id r = profileId) (rows s)"

text \<open>Modelled from the spec: findById(id), the stored record or the absence signal.\<close>

definition repo_findOne :: "nat \<Rightarrow> bool \<Rightarrow> 'n world \<Rightarrow> Identity option" where
  "repo_findOne i withRelated s = find (\<lambda>r. identity_id r = i) (rows s)"

text \<open>Modelled from the spec: findByWalletName(name), the stored record or the absence signal.\<close>

definition repo_findOneByWalletName :: "string \<Rightarrow> bool \<Rightarrow> 'n world \<Rightarrow> Identity option" where
  "repo_findOneByWalletName w withRelated s = find (\<lambda>r. identity_wallet r = w) (rows s)"

text \<open>Modelled from the spec: findByAddress(address), the stored record or the absence signal.\<close>

definition repo_findOneByAddress :: "string \<Rightarrow> bool \<Rightarrow> 'n world \<Rightarrow> Identity option" where
  "repo_findOneByAddress a withRelated s = find (\<lambda>r. identity_address r = a) (rows s)"

text \<open>Modelled from the spec: the stored representation of a create request under a newly assigned id.\<close>

definition new_row :: "nat \<Rightarrow> IdentityCreateRequest \<Rightarrow> Identity" where
  "new_row i body =
     \<lparr> identity_id = i, identity_profile_id = cr_profile_id body,
       identity_wallet = cr_wallet body, identity_address = cr_address body,
       identity_hdseedid = cr_hdseedid body, identity_path = cr_path body,
       identity_mnemonic = cr_mnemonic body, identity_passphrase = cr_passphrase body,
       identity_type = cr_type body \<rparr>"

text \<open>Modelled from the spec: create(record) stores the record under a new id and returns it.\<close>

definition repo_create :: "IdentityCreateRequest \<Rightarrow> ('n, Identity) prog" where
  "repo_create body s =
     (let row = new_row (next_id s) body
      in (Inr row, s\<lparr>rows := rows s @ [row], next_id := Suc (next_id s),
                      trace := trace s @ [StoreCreateEv body]\<rparr>))"

text \<open>Modelled from the spec: update(id, record) replaces the record stored under the id and returns what is then stored under it.\<close>

definition repo_update :: "nat \<Rightarrow> Identity \<Rightarrow> ('n, Identity option) prog" where
  "repo_update i data s =
     (let s' = s\<lparr>rows := map (\<lambda>r. if identity_id r = i then data else r) (rows s),
                 trace := trace s @ [StoreUpdateEv i data]\<rparr>
      in (Inr (repo_findOne i True s'), s'))"

text \<open>Modelled from the spec: delete(id) removes the record stored under the id.\<close>

definition repo_destroy :: "nat \<Rightarrow> ('n, unit) prog" where
  "repo_destroy i s = (Inr (), s\<lparr>rows := filter (\<lambda>r. identity_id r \<noteq> i) (rows s)\<rparr>)"

section \<open>The passphrase generator \<open>createRandom\<close>\<close>

definition capsChars :: "bool \<Rightarrow> string" where
  "capsChars caps = (if caps then ''ABCDEFGHIJKLMNOPQRSTUVWXYZ'' else [])"

definition lowerChars :: "bool \<Rightarrow> string" where
  "lowerChars lower = (if lower then ''abcdefghijklmnopqrstuvwxyz'' else [])"

definition numChars :: "bool \<Rightarrow> string" where
  "numChars numbers = (if numbers then ''0123456789'' else [])"

definition uniqueChars :: "bool \<Rightarrow> string" where
  "uniqueChars unique = (if unique then ''~!@#$%^&*()_+-=[]{};:,.<>?'' else [])"

definition selectedChars :: "bool \<Rightarrow> bool \<Rightarrow> bool \<Rightarrow> bool \<Rightarrow> string" where
  "selectedChars caps lower numbers unique =
     capsChars caps @ lowerChars lower @ numChars numbers @ uniqueChars unique"

text \<open>
  \<open>x | 0\<close> is JavaScript's ToInt32: truncate towards zero, then wrap to 32 bits
  signed. It is applied to the value of the double that the multiplication returned.
\<close>

definition to_int32 :: "real \<Rightarrow> int" where
  "to_int32 x =
     (let t = (if x < 0 then - \<lfloor>- x\<rfloor> else \<lfloor>x\<rfloor>);
          m = t mod 2 ^ 32
      in if 2 ^ 31 \<le> m then m - 2 ^ 32 else m)"

text \<open>\<open>xs[i]\<close> in JavaScript: \<open>undefined\<close> (here \<open>None\<close>) outside the array.\<close>

definition js_index :: "'a list \<Rightarrow> int \<Rightarrow> 'a option" where
  "js_index xs i = (if 0 \<le> i \<and> i < int (length xs) then Some (xs ! nat i) else None)"

definition Math_random :: "'n world \<Rightarrow> double \<times> 'n world" where
  "Math_random s = (rng s (rng_pos s), s\<lparr>rng_pos := Suc (rng_pos s)\<rparr>)"

text \<open>
  \<open>[...Array(length)].map(i => selectedChars[Math.random() * selectedChars.length | 0])\<close>:
  one draw per element, left to right.
\<close>

fun map_draw :: "nat \<Rightarrow> string \<Rightarrow> 'n world \<Rightarrow> char option list \<times> 'n world" where
  "map_draw 0 sel s = ([], s)"
| "map_draw (Suc k) sel s =
     (case Math_random s of (r, s1) \<Rightarrow>
        (case map_draw k sel s1 of (cs, s2) \<Rightarrow>
           (js_index sel (to_int32 (double_val (mul_length r (length sel)))) # cs, s2)))"

text \<open>\<open>.join('')\<close>: an \<open>undefined\<close> element contributes the empty string.\<close>

definition join_chars :: "char option list \<Rightarrow> string" where
  "join_chars cs = concat (map (\<lambda>c. case c of None \<Rightarrow> [] | Some ch \<Rightarrow> [ch]) cs)"

text \<open>\<open>Array(length)\<close> throws a RangeError unless \<open>0 \<le> length < 2^32\<close>.\<close>

definition createRandom ::
  "int \<Rightarrow> bool \<Rightarrow> bool \<Rightarrow> bool \<Rightarrow> bool \<Rightarrow> ('n, string) prog" where
  "createRandom len caps lower numbers unique s =
     (if len < 0 \<or> 2 ^ 32 \<le> len then (Inl RangeError, s)
      else (case map_draw (nat len) (selectedChars caps lower numbers unique) s of
              (cs, s') \<Rightarrow> (Inr (join_chars cs), s')))"

section \<open>The service methods\<close>

definition findAll :: "'n env \<Rightarrow> ('n, Identity list) prog" where
  "findAll env s = (Inr (repo_findAll s), s)"

definition findAllByProfileId :: "'n env \<Rightarrow> nat \<Rightarrow> bool \<Rightarrow> ('n, Identity list) prog" where
  "findAllByProfileId env profileId withRelated s =
     (Inr (repo_findAllByProfileId profileId withRelated s), s)"

definition findOne :: "'n env \<Rightarrow> nat \<Rightarrow> bool \<Rightarrow> ('n, Identity) prog" where
  "findOne env i withRelated s =
     (case repo_findOne i withRelated s of
        None \<Rightarrow> (Inl (NotFoundException (IdKey i)), s)
      | Some identity \<Rightarrow> (Inr identity, s))"

definition findOneByWalletName :: "'n env \<Rightarrow> string \<Rightarrow> bool \<Rightarrow> ('n, Identity) prog" where
  "findOneByWalletName env w withRelated s =
     (case repo_findOneByWalletName w withRelated s of
        None \<Rightarrow> (Inl (NotFoundException (StrKey w)), s)
      | Some identity \<Rightarrow> (Inr identity, s))"

definition findOneByAddress :: "'n env \<Rightarrow> string \<Rightarrow> bool \<Rightarrow> ('n, Identity) prog" where
  "findOneByAddress env a withRelated s =
     (case repo_findOneByAddress a withRelated s of
        None \<Rightarrow> (Inl (NotFoundException (StrKey a)), s)
      | Some identity \<Rightarrow> (Inr identity, s))"

text \<open>
  \<open>findProfileIdentity\<close> hands the repository's answer back unchecked, so its result
  is an \<open>Identity option\<close>: \<open>None\<close> is the repository's \<open>null\<close>.
\<close>

definition findProfileIdentity :: "'n env \<Rightarrow> nat \<Rightarrow> bool \<Rightarrow> ('n, Identity option) prog" where
  "findProfileIdentity env profileId withRelated s =
     (case profileService_findOne env profileId True (node s) of
        Inl e \<Rightarrow> (Inl e, s)
      | Inr profile \<Rightarrow>
          (case find (\<lambda>p. identity_type p = PROFILE) (profile_Identities profile) of
             None \<Rightarrow> (Inl (ModelNotFoundException ''Identity''), s)
           | Some identity \<Rightarrow> (Inr (repo_findOne (identity_id identity) withRelated s), s)))"

definition create :: "'n env \<Rightarrow> IdentityCreateRequest \<Rightarrow> ('n, Identity) prog" where
  "create env data =
     (if valid_create env data then repo_create data else throwE ValidationException)"

text \<open>The predicate both provisioning methods hand to \<open>_.find\<close>.\<close>

definition isMasterKey :: "RpcExtKey \<Rightarrow> bool" where
  "isMasterKey key \<longleftrightarrow>
     extkey_type key = ''Loose'' \<and> extkey_key_type key = ''Master'' \<and>
     extkey_label key = ''Master Key - bip44 derived.'' \<and>
     extkey_current_master key = Some ''true''"

definition masterKeyMissing :: error where
  "masterKeyMissing = MessageException ''Could not find Profile wallets Master key.''"

text \<open>The literal \<open>"4444446'/0'"\<close> (the last character is an apostrophe).\<close>

definition marketAccountPath :: string where
  "marketAccountPath = ''4444446'/0'' @ [CHR 0x27]"

text \<open>
  \<open>createMarketIdentityForProfile\<close>. The first line calls \<open>toJSON()\<close> on what
  \<open>findProfileIdentity\<close> returned, which throws a TypeError on \<open>null\<close>.
\<close>

definition createMarketIdentityForProfile :: "'n env \<Rightarrow> Profile \<Rightarrow> ('n, Identity) prog" where
  "createMarketIdentityForProfile env profile =
     bindE (findProfileIdentity env (profile_id profile) True) (\<lambda>found.
       case found of
         None \<Rightarrow> throwE TypeError
       | Some profileIdentity \<Rightarrow>
     bindE (coreRpc_extKeyList env (identity_wallet profileIdentity) True) (\<lambda>extKeys.
       case find isMasterKey extKeys of
         None \<Rightarrow> throwE masterKeyMissing
       | Some masterKey \<Rightarrow>
     bindE (coreRpc_extKeyInfo env (identity_wallet profileIdentity) (extkey_evkey masterKey)
              marketAccountPath) (\<lambda>keyInfo.
     let walletName = ''profiles/'' @ profile_name profile @ ''/particl-market'' in
     bindE (coreRpc_createAndLoadWallet env walletName False True) (\<lambda>marketWallet.
     bindE (coreRpc_extKeyAltVersion env (extkey_evkey masterKey)) (\<lambda>extKeyAlt.
     bindE (coreRpc_extKeyImport env (rpcwallet_name marketWallet) (extkey_evkey masterKey)
              ''master key'' True) (\<lambda>extKeyImported.
     bindE (coreRpc_extKeySetMaster env (rpcwallet_name marketWallet)
              (keyresult_id extKeyImported)) (\<lambda>_.
     bindE (coreRpc_extKeyDeriveAccount env (rpcwallet_name marketWallet)
              ''market account'') (\<lambda>marketAccount.
     bindE (coreRpc_extKeySetDefaultAccount env (rpcwallet_name marketWallet)
              (keyresult_account marketAccount)) (\<lambda>_.
     bindE (coreRpc_getNewAddress env (rpcwallet_name marketWallet)) (\<lambda>address.
     bindE (coreRpc_getWalletInfo env (rpcwallet_name marketWallet)) (\<lambda>walletInfo.
     create env
       \<lparr> cr_profile_id = profile_id profile,
         cr_wallet = rpcwallet_name marketWallet,
         cr_address = address,
         cr_hdseedid = Some (walletinfo_hdseedid walletInfo),
         cr_path = Some (keyresult_key_info_path keyInfo),
         cr_mnemonic = None,
         cr_passphrase = None,
         cr_type = MARKET \<rparr>)))))))))))"

text \<open>The parameter array of the \<open>mnemonic\<close> call in \<open>createProfileIdentity\<close>.\<close>

definition mnemonicParams :: "string \<Rightarrow> rpc_param list" where
  "mnemonicParams passphrase =
     [PStr ''new'', PStr passphrase, PStr ''english'', PNum 32, PBool True]"

text \<open>
  \<open>createProfileIdentity\<close>. \<open>createRandom()\<close> is called with its defaults
  (length 24, all four classes enabled); \<open>getWalletInfo\<close> is asked for
  \<open>walletName\<close>, the other calls for \<open>wallet.name\<close>.
\<close>

definition createProfileIdentity :: "'n env \<Rightarrow> Profile \<Rightarrow> ('n, Identity) prog" where
  "createProfileIdentity env profile =
     (let walletName = ''profiles/'' @ profile_name profile in
     bindE (coreRpc_createAndLoadWallet env walletName False True) (\<lambda>wallet.
     bindE (createRandom 24 True True True True) (\<lambda>passphrase.
     bindE (coreRpc_mnemonic env (mnemonicParams passphrase)) (\<lambda>mnemonic.
     bindE (coreRpc_extKeyGenesisImport env (rpcwallet_name wallet)
              [PStr (rpcmnemonic_mnemonic mnemonic), PStr passphrase]) (\<lambda>_.
     bindE (coreRpc_extKeyList env (rpcwallet_name wallet) True) (\<lambda>extKeys.
       case find isMasterKey extKeys of
         None \<Rightarrow> throwE masterKeyMissing
       | Some masterKey \<Rightarrow>
     bindE (coreRpc_getNewAddress env (rpcwallet_name wallet)) (\<lambda>address.
     bindE (coreRpc_getWalletInfo env walletName) (\<lambda>walletInfo.
     create env
       \<lparr> cr_profile_id = profile_id profile,
         cr_wallet = rpcwallet_name wallet,
         cr_address = address,
         cr_hdseedid = Some (walletinfo_hdseedid walletInfo),
         cr_path = Some (extkey_path masterKey),
         cr_mnemonic = Some (rpcmnemonic_mnemonic mnemonic),
         cr_passphrase = Some passphrase,
         cr_type = PROFILE \<rparr>))))))))"

text \<open>
  \<open>update\<close>: \<open>@validate()\<close> checks the body, \<open>findOne(id, false)\<close> loads the row,
  seven setters run (the setter of \<open>Path\<close> is given \<open>body.hdseedid\<close>), and the
  row's JSON form goes to the repository.
\<close>

definition update :: "'n env \<Rightarrow> nat \<Rightarrow> IdentityUpdateRequest \<Rightarrow> ('n, Identity option) prog" where
  "update env i body =
     (if \<not> valid_update env body then throwE ValidationException
      else bindE (findOne env i False) (\<lambda>identity.
        repo_update i
          (identity\<lparr> identity_wallet := upd_wallet body,
                     identity_address := upd_address body,
                     identity_hdseedid := upd_hdseedid body,
                     identity_path := upd_hdseedid body,
                     identity_mnemonic := upd_mnemonic body,
                     identity_passphrase := upd_passphrase body,
                     identity_type := upd_type body \<rparr>)))"

definition destroy :: "'n env \<Rightarrow> nat \<Rightarrow> ('n, unit) prog" where
  "destroy env i = repo_destroy i"

text \<open>The log entries a run added: those of the final state beyond the initial ones.\<close>

definition new_events :: "'n world \<Rightarrow> 'n world \<Rightarrow> event list" where
  "new_events s s' = drop (length (trace s)) (trace s')"

text \<open>
  The passphrase \<open>createRandom()\<close> returns when it is called, with its defaults, in
  state \<open>s\<close>.
\<close>

definition generated_passphrase :: "'n world \<Rightarrow> string" where
  "generated_passphrase s =
     (case fst (createRandom 24 True True True True s) of Inr p \<Rightarrow> p | Inl e \<Rightarrow> [])"


section \<open>Concrete collaborators and states\<close>

text \<open>
  A profile named alice, her profile identity, a master key as the wallet daemon lists
  it, and two daemons: \<open>echo_env\<close> answers \<open>createAndLoadWallet\<close> with the requested
  name and \<open>extKeyInfo\<close> with the requested path; \<open>relabel_env\<close> answers with a
  wallet name and a path of its own and with an empty mnemonic; \<open>failing_import_env\<close>
  refuses \<open>extKeyGenesisImport\<close>. The random stream of
  \<open>world0\<close> is constantly \<open>seven_tenths\<close>, the double nearest to 0.7: multiplied
  by 88 it gives the index 61, and multiplied by 10 it is rounded up to 7.
\<close>

definition seven_tenths :: double where
  "seven_tenths = Double 6305039478318694 (- 53)"

definition world0 :: "Identity list \<Rightarrow> unit world" where
  "world0 table =
     \<lparr> node = (), rng = (\<lambda>_. seven_tenths), rng_pos = 0, rows = table,
       next_id = Suc (length table), trace = [] \<rparr>"

definition masterKey0 :: RpcExtKey where
  "masterKey0 =
     \<lparr> extkey_type = ''Loose'', extkey_key_type = ''Master'',
       extkey_label = ''Master Key - bip44 derived.'',
       extkey_current_master = Some ''true'',
       extkey_evkey = ''xparEV'', extkey_path = ''m/44h/44h'' \<rparr>"

definition aliceIdentity :: Identity where
  "aliceIdentity =
     \<lparr> identity_id = 1, identity_profile_id = 1, identity_wallet = ''profiles/alice'',
       identity_address = ''pAlice'', identity_hdseedid = Some ''seed1'',
       identity_path = Some ''m/44h/44h'', identity_mnemonic = Some ''abandon ability'',
       identity_passphrase = Some ''secret'', identity_type = PROFILE \<rparr>"

definition alice :: "Identity list \<Rightarrow> Profile" where
  "alice ids = \<lparr> profile_id = 1, profile_name = ''alice'', profile_Identities = ids \<rparr>"

definition echo_env :: "RpcExtKey list \<Rightarrow> Profile \<Rightarrow> unit env" where
  "echo_env keys profile =
     \<lparr> rpc_createAndLoadWallet = (\<lambda>name d b n. (Inr \<lparr> rpcwallet_name = name \<rparr>, n)),
       rpc_mnemonic = (\<lambda>params n. (Inr \<lparr> rpcmnemonic_mnemonic = ''abandon ability'' \<rparr>, n)),
       rpc_extKeyGenesisImport = (\<lambda>w params n. (Inr (), n)),
       rpc_extKeyList = (\<lambda>w f n. (Inr keys, n)),
       rpc_extKeyInfo = (\<lambda>w key path n.
          (Inr \<lparr> keyresult_id = ''k0'', keyresult_account = ''a0'',
                 keyresult_key_info_path = path \<rparr>, n)),
       rpc_extKeyAltVersion = (\<lambda>key n. (Inr (''alt:'' @ key), n)),
       rpc_extKeyImport = (\<lambda>w key label b n.
          (Inr \<lparr> keyresult_id = ''k1'', keyresult_account = ''a0'',
                 keyresult_key_info_path = [] \<rparr>, n)),
       rpc_extKeySetMaster = (\<lambda>w k n. (Inr (), n)),
       rpc_extKeyDeriveAccount = (\<lambda>w label n.
          (Inr \<lparr> keyresult_id = ''k2'', keyresult_account = ''a1'',
                 keyresult_key_info_path = [] \<rparr>, n)),
       rpc_extKeySetDefaultAccount = (\<lambda>w a n. (Inr (), n)),
       rpc_getNewAddress = (\<lambda>w n. (Inr ''pNew'', n)),
       rpc_getWalletInfo = (\<lambda>w n. (Inr \<lparr> walletinfo_hdseedid = ''seed2'' \<rparr>, n)),
       profileService_findOne = (\<lambda>i wr n.
          if i = profile_id profile then Inr profile else Inl (NotFoundException (IdKey i))),
       valid_create = (\<lambda>r. cr_wallet r \<noteq> []),
       valid_update = (\<lambda>r. upd_wallet r \<noteq> []) \<rparr>"

definition relabel_env :: "RpcExtKey list \<Rightarrow> Profile \<Rightarrow> unit env" where
  "relabel_env keys profile =
     (echo_env keys profile)
       \<lparr> rpc_createAndLoadWallet := (\<lambda>name d b n. (Inr \<lparr> rpcwallet_name = ''w7'' \<rparr>, n)),
         rpc_mnemonic := (\<lambda>params n. (Inr \<lparr> rpcmnemonic_mnemonic = [] \<rparr>, n)),
         rpc_extKeyInfo := (\<lambda>w key path n.
            (Inr \<lparr> keyresult_id = ''k0'', keyresult_account = ''a0'',
                   keyresult_key_info_path = ''m/4444446h/0h'' \<rparr>, n)) \<rparr>"

definition failing_import_env :: "RpcExtKey list \<Rightarrow> Profile \<Rightarrow> unit env" where
  "failing_import_env keys profile =
     (echo_env keys profile)
       \<lparr> rpc_extKeyGenesisImport :=
           (\<lambda>w params n. (Inl (CollaboratorFailure ''genesis import refused''), n)) \<rparr>"

definition updateRequest0 :: IdentityUpdateRequest where
  "updateRequest0 =
     \<lparr> upd_wallet = ''profiles/alice2'', upd_address = ''pAlice2'',
       upd_hdseedid = Some ''seed9'', upd_path = Some ''m/44h/1h'',
       upd_mnemonic = Some ''zoo zone'', upd_passphrase = Some ''hunter2'',
       upd_type = PROFILE \<rparr>"

definition profileRow :: "string \<Rightarrow> string \<Rightarrow> Identity" where
  "profileRow w m =
     \<lparr> identity_id = 1, identity_profile_id = 1, identity_wallet = w,
       identity_address = ''pNew'', identity_hdseedid = Some ''seed2'',
       identity_path = Some ''m/44h/44h'', identity_mnemonic = Some m,
       identity_passphrase = Some ''999999999999999999999999'', identity_type = PROFILE \<rparr>"

definition marketRow :: "string \<Rightarrow> string \<Rightarrow> Identity" where
  "marketRow w p =
     \<lparr> identity_id = 2, identity_profile_id = 1, identity_wallet = w,
       identity_address = ''pNew'', identity_hdseedid = Some ''seed2'',
       identity_path = Some p, identity_mnemonic = None,
       identity_passphrase = None, identity_type = MARKET \<rparr>"

definition marketEvents :: "string \<Rightarrow> string \<Rightarrow> event list" where
  "marketEvents w p =
     [ExtKeyListEv ''profiles/alice'' True (Inr [masterKey0]),
      ExtKeyInfoEv ''profiles/alice'' ''xparEV'' marketAccountPath
        (Inr \<lparr>keyresult_id = ''k0'', keyresult_account = ''a0'', keyresult_key_info_path = p\<rparr>),
      CreateAndLoadWalletEv ''profiles/alice/particl-market'' False True (Inr \<lparr>rpcwallet_name = w\<rparr>),
      ExtKeyAltVersionEv ''xparEV'' (Inr ''alt:xparEV''),
      ExtKeyImportEv w ''xparEV'' ''master key'' True
        (Inr \<lparr>keyresult_id = ''k1'', keyresult_account = ''a0'', keyresult_key_info_path = []\<rparr>),
      ExtKeySetMasterEv w ''k1'' (Inr ()),
      ExtKeyDeriveAccountEv w ''market account''
        (Inr \<lparr>keyresult_id = ''k2'', keyresult_account = ''a1'', keyresult_key_info_path = []\<rparr>),
      ExtKeySetDefaultAccountEv w ''a1'' (Inr ()),
      GetNewAddressEv w (Inr ''pNew''),
      GetWalletInfoEv w (Inr \<lparr>walletinfo_hdseedid = ''seed2''\<rparr>),
      StoreCreateEv
        \<lparr> cr_profile_id = 1, cr_wallet = w, cr_address = ''pNew'',
          cr_hdseedid = Some ''seed2'', cr_path = Some p, cr_mnemonic = None,
          cr_passphrase = None, cr_type = MARKET \<rparr>]"

section \<open>Auxiliary facts\<close>

subsection \<open>The repository\<close>

lemma find_map_replace:
  assumes "find P xs = Some old" "P data"
  shows "find P (map (\<lambda>r. if P r then data else r) xs) = Some data"
  using assms by (induction xs) (auto split: if_splits)

subsection \<open>The passphrase generator\<close>

lemma map_draw_eq:
  "map_draw k sel s =
     (map (\<lambda>j. js_index sel
              (to_int32 (double_val (mul_length (rng s (rng_pos s + j)) (length sel))))) [0..<k],
      s\<lparr>rng_pos := rng_pos s + k\<rparr>)"
proof (induction k arbitrary: s)
  case 0
  show ?case by simp
next
  case (Suc k)
  have upt: "[0..<Suc k] = 0 # map Suc [0..<k]"
    by (simp add: upt_conv_Cons map_Suc_upt del: upt_Suc)
  show ?case
    unfolding upt by (simp add: Suc Math_random_def comp_def)
qed

lemma to_int32_small: "0 \<le> x \<Longrightarrow> x < 2 ^ 31 \<Longrightarrow> to_int32 x = \<lfloor>x\<rfloor>"
proof -
  assume a: "0 \<le> x" "x < 2 ^ 31"
  have f0: "0 \<le> \<lfloor>x\<rfloor>" using a by simp
  have f1: "\<lfloor>x\<rfloor> < 2 ^ 31" using a by (simp add: floor_less_iff)
  have "\<lfloor>x\<rfloor> mod 2 ^ 32 = \<lfloor>x\<rfloor>" using f0 f1 by simp
  then show ?thesis using a f0 f1 by (simp add: to_int32_def Let_def)
qed

text \<open>A double below 1 is at most \<open>1 - 2 ^ -53\<close>.\<close>

lemma unit_double_le:
  assumes m: "m < (2::nat) ^ 53" and v: "real m * 2 powi e < 1"
  shows "real m * 2 powi e \<le> 1 - 1 / 2 ^ 53"
proof (cases "- 53 \<le> e")
  case True
  define j where "j = nat (e + 53)"
  have e: "e = int j - 53" using True by (simp add: j_def)
  have pw: "(2::real) powi e = 2 ^ j / 2 ^ 53"
    unfolding e by (simp add: power_int_diff)
  from v have "real m * 2 ^ j < 2 ^ 53" by (simp add: pw field_simps)
  then have "real (m * 2 ^ j) < real ((2::nat) ^ 53)" by simp
  then have "m * 2 ^ j < (2::nat) ^ 53" by (simp only: of_nat_less_iff)
  then have "m * 2 ^ j \<le> (2::nat) ^ 53 - 1" by simp
  then have "real (m * 2 ^ j) \<le> real ((2::nat) ^ 53 - 1)" by (simp only: of_nat_le_iff)
  then have "real m * 2 ^ j \<le> 2 ^ 53 - 1" by simp
  then show ?thesis by (simp add: pw field_simps)
next
  case False
  then have "e \<le> - 54" by simp
  then have "(2::real) powi e \<le> 2 powi (- 54)"
    by (intro power_int_increasing) simp_all
  then have le: "(2::real) powi e \<le> 1 / 2 ^ 54" by (simp add: power_int_minus field_simps)
  have "real m \<le> 2 ^ 53" using m by (metis less_imp_le of_nat_le_iff of_nat_numeral of_nat_power)
  then have "real m * 2 powi e \<le> 2 ^ 53 * (1 / 2 ^ 54)"
    using le by (intro mult_mono) simp_all
  then show ?thesis by simp
qed

text \<open>
  The rounded product of a double below 1 and a length \<open>n\<close> is below \<open>n\<close>: the
  exact product is at least half a unit in the last place below \<open>n\<close>, and \<open>n\<close> is
  a multiple of that unit, so rounding to nearest does not reach \<open>n\<close>.
\<close>

lemma mul_length_in_range:
  assumes m: "mantissa x < 2 ^ 53" and v: "double_val x < 1" and n0: "0 < n" and n31: "n < 2 ^ 31"
  shows "0 \<le> double_val (mul_length x n) \<and> double_val (mul_length x n) < real n"
proof -
  define mm where "mm = mantissa x"
  define e where "e = exponent x"
  define p where "p = mm * n"
  define vv where "vv = real mm * 2 powi e"
  have v1: "vv < 1" using v by (simp add: vv_def double_val_def mm_def e_def)
  have v0: "0 \<le> vv" by (simp add: vv_def)
  have pv: "real p * 2 powi e = real n * vv" by (simp add: p_def vv_def)
  have nonneg: "0 \<le> double_val (mul_length x n)"
    by (simp add: double_val_def)
  show ?thesis
  proof (cases "p < 2 ^ 53")
    case True
    then have "mul_length x n = Double p e"
      by (simp add: mul_length_def p_def mm_def e_def)
    then have "double_val (mul_length x n) = real n * vv"
      using pv by (simp add: double_val_def)
    moreover have "real n * vv < real n" using v1 n0 by simp
    ultimately show ?thesis using nonneg by simp
  next
    case False
    then have p53: "2 ^ 53 \<le> p" by simp
    then have ppos: "0 < p" by (metis less_le_trans zero_less_numeral zero_less_power)
    define L where "L = floorlog 2 p"
    from floorlog_bounds [OF ppos, of 2]
    have lo: "2 ^ (L - 1) \<le> p" and hi: "p < 2 ^ L" by (simp_all add: L_def)
    have "(2::nat) ^ 53 < 2 ^ L" using p53 hi by simp
    then have L53: "53 < L" by (simp only: power_strict_increasing_iff one_less_numeral_iff semiring_norm)
    define k where "k = L - 53"
    have k1: "1 \<le> k" and Lk: "L - 1 = k + 52" using L53 by (simp_all add: k_def)
    have lo': "2 ^ (k + 52) \<le> p" using lo Lk by simp
    have small: "real n * vv < 2 ^ 31"
    proof -
      have "real n * vv \<le> real n" using v1 v0 by (simp add: mult_left_le)
      moreover have "real n < 2 ^ 31" using n31 by (metis of_nat_less_iff of_nat_numeral of_nat_power)
      ultimately show ?thesis by linarith
    qed
    have rlo: "(2::real) ^ (k + 52) \<le> real p"
      using lo' by (metis of_nat_le_iff of_nat_numeral of_nat_power)
    then have "2 ^ (k + 52) * 2 powi e \<le> real p * 2 powi e"
      by (intro mult_right_mono) simp_all
    then have a: "(2::real) ^ (k + 52) * 2 powi e < 2 ^ 31"
      using small pv by linarith
    have "(2::real) powi (int (k + 52) + e) = 2 powi int (k + 52) * 2 powi e"
      by (rule power_int_add) simp
    also have "(2::real) powi int (k + 52) = 2 ^ (k + 52)"
      by (rule power_int_of_nat)
    finally have b: "(2::real) powi (int (k + 52) + e) = 2 ^ (k + 52) * 2 powi e" .
    have c: "(2::real) powi 31 = 2 ^ 31" by simp
    have lt: "(2::real) powi (int (k + 52) + e) < 2 powi 31"
      unfolding b c by (rule a)
    have "int (k + 52) + e < 31"
      by (rule power_int_le_imp_less_exp [OF _ lt]) simp_all
    then have ek: "e + int k \<le> - 22" by simp
    define t where "t = nat (- e - int k)"
    have e_eq: "e = - int k - int t" using ek by (simp add: t_def)
    have pe: "(2::real) powi e = 1 / (2 ^ k * 2 ^ t)"
      unfolding e_eq by (simp add: power_int_diff power_int_minus field_simps)
    have pek: "(2::real) powi (e + int k) = 1 / 2 ^ t"
      unfolding e_eq by (simp add: power_int_minus field_simps)
    define N where "N = n * 2 ^ t"
    have Npos: "0 < N" using n0 by (simp add: N_def)
    have p_eq: "real p = vv * (real N * 2 ^ k)"
      using pv by (simp add: pe N_def field_simps)
    have p_lt: "real p < real N * 2 ^ k"
      using p_eq v1 Npos by simp
    have "(2::real) ^ 52 * 2 ^ k = 2 ^ (k + 52)" by (simp only: power_add mult.commute)
    then have "(2::real) ^ 52 * 2 ^ k < real N * 2 ^ k"
      using p_lt rlo by linarith
    then have N52: "2 ^ 52 < real N" by simp
    have vle: "vv \<le> 1 - 1 / 2 ^ 53"
      unfolding vv_def using m v1 [unfolded vv_def] by (intro unit_double_le) (simp_all add: mm_def)
    have "real p \<le> (1 - 1 / 2 ^ 53) * (real N * 2 ^ k)"
      unfolding p_eq using vle by (intro mult_right_mono) simp_all
    also have "\<dots> = real N * 2 ^ k - real N * 2 ^ k / 2 ^ 53" by (simp add: algebra_simps)
    also have "\<dots> < real N * 2 ^ k - 2 ^ k / 2"
    proof -
      have "2 ^ 52 * (2::real) ^ k < real N * 2 ^ k" using N52 by simp
      then show ?thesis by (simp add: field_simps)
    qed
    finally have "2 * real p + 2 ^ k < 2 * real N * 2 ^ k" by (simp add: field_simps)
    then have "real (2 * p + 2 ^ k) < real (2 * N * 2 ^ k)" by simp
    then have key: "2 * p + 2 ^ k < 2 * N * 2 ^ k" by (simp only: of_nat_less_iff)
    define q where "q = p div 2 ^ k"
    define r where "r = p mod 2 ^ k"
    have pqr: "p = q * 2 ^ k + r" unfolding q_def r_def by (rule div_mult_mod_eq [symmetric])
    define q' where "q' = (if 2 ^ k < 2 * r \<or> (2 * r = 2 ^ k \<and> odd q) then Suc q else q)"
    have q'N: "q' < N"
    proof (cases "2 ^ k < 2 * r \<or> (2 * r = 2 ^ k \<and> odd q)")
      case True
      then have "2 ^ k \<le> 2 * r" by auto
      then have "(2 * q + 2) * 2 ^ k \<le> 2 * p + 2 ^ k" by (simp add: pqr algebra_simps)
      from this key have "(2 * q + 2) * 2 ^ k < (2 * N) * 2 ^ k" by (rule le_less_trans)
      then have "2 * q + 2 < 2 * N" unfolding mult_less_cancel2 by (rule conjunct2)
      then show ?thesis using True by (auto simp: q'_def)
    next
      case False
      have "(2 * q) * 2 ^ k \<le> 2 * p + 2 ^ k" by (simp add: pqr algebra_simps)
      from this key have "(2 * q) * 2 ^ k < (2 * N) * 2 ^ k" by (rule le_less_trans)
      then have "2 * q < 2 * N" unfolding mult_less_cancel2 by (rule conjunct2)
      then show ?thesis using False by (auto simp: q'_def)
    qed
    have "mul_length x n = Double q' (e + int k)"
      using False
      by (simp add: mul_length_def Let_def p_def mm_def e_def q'_def q_def r_def k_def L_def)
    then have "double_val (mul_length x n) = real q' / 2 ^ t"
      by (simp add: double_val_def pek)
    moreover have "real q' / 2 ^ t < real N / 2 ^ t"
      using q'N by (simp add: divide_strict_right_mono)
    moreover have "real N / 2 ^ t = real n" by (simp add: N_def)
    ultimately show ?thesis using nonneg by simp
  qed
qed

lemma draw_in_range:
  assumes r: "unit_double r" and ne: "sel \<noteq> []" and small: "length sel < 2 ^ 31"
  shows "\<exists>ch \<in> set sel. js_index sel (to_int32 (double_val (mul_length r (length sel)))) = Some ch"
proof -
  let ?n = "length sel"
  let ?x = "double_val (mul_length r ?n)"
  have n0: "0 < ?n" using ne by simp
  from r have "mantissa r < 2 ^ 53" "double_val r < 1" by (simp_all add: unit_double_def)
  from mul_length_in_range [OF this n0 small]
  have x0: "0 \<le> ?x" and xn: "?x < real ?n" by simp_all
  have "real ?n < 2 ^ 31" using small by (metis of_nat_less_iff of_nat_numeral of_nat_power)
  then have x31: "?x < 2 ^ 31" using xn by linarith
  have fl: "to_int32 ?x = \<lfloor>?x\<rfloor>" using x0 x31 by (rule to_int32_small)
  have i0: "0 \<le> \<lfloor>?x\<rfloor>" using x0 by simp
  have i1: "\<lfloor>?x\<rfloor> < int ?n" using xn by (simp add: floor_less_iff)
  have "nat \<lfloor>?x\<rfloor> < ?n" using i0 i1 by linarith
  then have mem: "sel ! nat \<lfloor>?x\<rfloor> \<in> set sel" by simp
  show ?thesis using fl i0 i1 mem by (simp add: js_index_def)
qed

lemma draw_empty: "js_index [] i = None"
  by (simp add: js_index_def)

lemma join_chars_Some: "\<forall>c \<in> set cs. \<exists>ch \<in> A. c = Some ch \<Longrightarrow> length (join_chars cs) = length cs \<and> set (join_chars cs) \<subseteq> A"
  by (induction cs) (auto simp: join_chars_def)

lemma join_chars_None: "\<forall>c \<in> set cs. c = None \<Longrightarrow> join_chars cs = []"
  by (induction cs) (auto simp: join_chars_def)

lemma selectedChars_length: "length (selectedChars c l n u) \<le> 88"
  by (simp add: selectedChars_def capsChars_def lowerChars_def numChars_def uniqueChars_def)

lemma selectedChars_empty: "selectedChars c l n u = [] \<longleftrightarrow> \<not> c \<and> \<not> l \<and> \<not> n \<and> \<not> u"
  by (simp add: selectedChars_def capsChars_def lowerChars_def numChars_def uniqueChars_def)

lemma createRandom_eq:
  "0 \<le> len \<Longrightarrow> len < 2 ^ 32 \<Longrightarrow>
   createRandom len c l n u s =
     (Inr (join_chars (map (\<lambda>j. js_index (selectedChars c l n u)
              (to_int32 (double_val (mul_length (rng s (rng_pos s + j))
                 (length (selectedChars c l n u))))))
            [0..<nat len])),
      s\<lparr>rng_pos := rng_pos s + nat len\<rparr>)"
  by (simp add: createRandom_def map_draw_eq)

lemma createRandom_draws:
  assumes rnd: "\<forall>i. unit_double (rng s i)"
  shows "\<exists>p. createRandom 24 caps lower numbers unique s = (Inr p, s\<lparr>rng_pos := rng_pos s + 24\<rparr>) \<and>
      (caps \<or> lower \<or> numbers \<or> unique \<longrightarrow>
         length p = 24 \<and>
         set p \<subseteq> set (capsChars caps) \<union> set (lowerChars lower) \<union> set (numChars numbers)
                   \<union> set (uniqueChars unique)) \<and>
      (\<not> caps \<and> \<not> lower \<and> \<not> numbers \<and> \<not> unique \<longrightarrow> p = [])"
proof -
  let ?sel = "selectedChars caps lower numbers unique"
  let ?cs = "map (\<lambda>j. js_index ?sel
                (to_int32 (double_val (mul_length (rng s (rng_pos s + j)) (length ?sel))))) [0..<24]"
  have run: "createRandom 24 caps lower numbers unique s = (Inr (join_chars ?cs), s\<lparr>rng_pos := rng_pos s + 24\<rparr>)"
    using createRandom_eq [of 24 caps lower numbers unique s] by simp
  have len: "length ?cs = 24" by simp
  have small: "length ?sel < 2 ^ 31" using selectedChars_length [of caps lower numbers unique] by simp
  have some: "?sel \<noteq> [] \<Longrightarrow> \<forall>c \<in> set ?cs. \<exists>ch \<in> set ?sel. c = Some ch"
  proof
    fix c assume ne: "?sel \<noteq> []" and "c \<in> set ?cs"
    then obtain j where
      c: "c = js_index ?sel (to_int32 (double_val (mul_length (rng s (rng_pos s + j)) (length ?sel))))"
      by auto
    have "unit_double (rng s (rng_pos s + j))" using rnd by simp
    from draw_in_range [OF this ne small] c show "\<exists>ch \<in> set ?sel. c = Some ch" by auto
  qed
  have none: "?sel = [] \<Longrightarrow> \<forall>c \<in> set ?cs. c = None"
    by (auto simp: draw_empty)
  have A: "caps \<or> lower \<or> numbers \<or> unique \<Longrightarrow> length (join_chars ?cs) = 24 \<and> set (join_chars ?cs) \<subseteq> set ?sel"
  proof -
    assume "caps \<or> lower \<or> numbers \<or> unique"
    then have "?sel \<noteq> []" by (simp add: selectedChars_empty)
    from join_chars_Some [OF some [OF this]] len show ?thesis by simp
  qed
  have B: "\<not> caps \<and> \<not> lower \<and> \<not> numbers \<and> \<not> unique \<Longrightarrow> join_chars ?cs = []"
  proof -
    assume "\<not> caps \<and> \<not> lower \<and> \<not> numbers \<and> \<not> unique"
    then have "?sel = []" by (simp add: selectedChars_empty)
    from join_chars_None [OF none [OF this]] show ?thesis .
  qed
  have sel_set: "set ?sel = set (capsChars caps) \<union> set (lowerChars lower) \<union> set (numChars numbers) \<union> set (uniqueChars unique)"
    by (simp add: selectedChars_def Un_assoc)
  show ?thesis
    using run A B unfolding sel_set by blast
qed


lemma createRandom_default:
  "createRandom 24 True True True True s =
     (Inr (generated_passphrase s), s\<lparr>rng_pos := rng_pos s + 24\<rparr>)"
  using createRandom_eq [of 24 True True True True s]
  by (simp add: generated_passphrase_def)

lemma generated_passphrase_cong:
  "rng s1 = rng s \<Longrightarrow> rng_pos s1 = rng_pos s \<Longrightarrow> generated_passphrase s1 = generated_passphrase s"
  using createRandom_eq [of 24 True True True True s] createRandom_eq [of 24 True True True True s1]
  by (simp add: generated_passphrase_def)

lemma generated_passphrase_rpc [simp]:
  "generated_passphrase (s\<lparr>node := n, trace := t\<rparr>) = generated_passphrase s"
  by (rule generated_passphrase_cong) simp_all

text \<open>
  The two products the concrete runs draw: \<open>0.7 * 88\<close> is rounded down and gives the
  index 61; \<open>0.7 * 10\<close> lies half-way between two doubles and is rounded up to 7.
\<close>

lemma seven_tenths_unit: "unit_double seven_tenths"
  by (simp add: unit_double_def seven_tenths_def double_val_def)

lemma seven_tenths_88: "to_int32 (double_val (mul_length seven_tenths 88)) = 61"
  by (simp add: seven_tenths_def mul_length_def Let_def compute_floorlog double_val_def to_int32_def)

lemma seven_tenths_10: "mul_length seven_tenths 10 = Double 7881299347898368 (- 50)"
  by (simp add: seven_tenths_def mul_length_def Let_def compute_floorlog)

lemma seven_tenths_10_index: "to_int32 (double_val (mul_length seven_tenths 10)) = 7"
  unfolding seven_tenths_10 by (simp add: double_val_def to_int32_def Let_def)

lemma join_chars_replicate: "join_chars (replicate k (Some c)) = replicate k c"
  by (induction k) (simp_all add: join_chars_def)

lemma createRandom_constant_stream:
  assumes const: "\<forall>i. rng s i = x"
      and pick: "js_index (selectedChars c l n u)
                   (to_int32 (double_val (mul_length x (length (selectedChars c l n u)))))
                 = Some ch"
  shows "createRandom 24 c l n u s = (Inr (replicate 24 ch), s\<lparr>rng_pos := rng_pos s + 24\<rparr>)"
proof -
  let ?sel = "selectedChars c l n u"
  have "map (\<lambda>j. js_index ?sel
                (to_int32 (double_val (mul_length (rng s (rng_pos s + j)) (length ?sel)))))
          [0..<24] = map (\<lambda>j. Some ch) [0..<24]"
    using const pick by simp
  also have "\<dots> = replicate 24 (Some ch)"
    by (metis diff_zero length_upt map_replicate_const)
  finally show ?thesis
    using createRandom_eq [of 24 c l n u s] by (simp add: join_chars_replicate)
qed

lemma passphrase_seven_tenths:
  assumes "\<forall>i. rng s i = seven_tenths"
  shows "generated_passphrase s = ''999999999999999999999999''"
proof -
  let ?sel = "selectedChars True True True True"
  have len: "length ?sel = 88"
    by (simp add: selectedChars_def capsChars_def lowerChars_def numChars_def uniqueChars_def)
  have pick: "js_index ?sel 61 = Some CHR ''9''"
    by (simp add: js_index_def selectedChars_def capsChars_def lowerChars_def numChars_def
        uniqueChars_def)
  have "js_index ?sel (to_int32 (double_val (mul_length seven_tenths (length ?sel))))
          = Some CHR ''9''"
    by (simp only: len seven_tenths_88 pick)
  from createRandom_constant_stream [OF assms this]
  have "generated_passphrase s = replicate 24 CHR ''9''"
    by (simp add: generated_passphrase_def)
  then show ?thesis by (simp add: eval_nat_numeral)
qed

lemma digits_seven_tenths:
  "createRandom 24 False False True False (world0 t)
     = (Inr ''777777777777777777777777'', (world0 t)\<lparr>rng_pos := 24\<rparr>)"
proof -
  let ?sel = "selectedChars False False True False"
  have const: "\<forall>i. rng (world0 t) i = seven_tenths" by (simp add: world0_def)
  have len: "length ?sel = 10"
    by (simp add: selectedChars_def capsChars_def lowerChars_def numChars_def uniqueChars_def)
  have pick: "js_index ?sel 7 = Some CHR ''7''"
    by (simp add: js_index_def selectedChars_def capsChars_def lowerChars_def numChars_def
        uniqueChars_def)
  have "js_index ?sel (to_int32 (double_val (mul_length seven_tenths (length ?sel))))
          = Some CHR ''7''"
    by (simp only: len seven_tenths_10_index pick)
  from createRandom_constant_stream [OF const this]
  have "createRandom 24 False False True False (world0 t)
          = (Inr (replicate 24 CHR ''7''), (world0 t)\<lparr>rng_pos := rng_pos (world0 t) + 24\<rparr>)" .
  moreover have "rng_pos (world0 t) = 0" by (simp add: world0_def)
  moreover have "replicate 24 CHR ''7'' = ''777777777777777777777777''"
    by (simp add: eval_nat_numeral)
  ultimately show ?thesis by simp
qed

subsection \<open>Runs on the concrete collaborators\<close>

lemmas coreRpc_defs =
  coreRpc_createAndLoadWallet_def coreRpc_mnemonic_def coreRpc_extKeyGenesisImport_def
  coreRpc_extKeyList_def coreRpc_extKeyInfo_def coreRpc_extKeyAltVersion_def
  coreRpc_extKeyImport_def coreRpc_extKeySetMaster_def coreRpc_extKeyDeriveAccount_def
  coreRpc_extKeySetDefaultAccount_def coreRpc_getNewAddress_def coreRpc_getWalletInfo_def

lemmas run_defs =
  createProfileIdentity_def createMarketIdentityForProfile_def findProfileIdentity_def
  coreRpc_defs bindE_def rpc_call_def create_def repo_create_def repo_findOne_def throwE_def
  new_row_def Let_def createRandom_default mnemonicParams_def masterKeyMissing_def

lemmas fixture_defs =
  echo_env_def relabel_env_def failing_import_env_def alice_def aliceIdentity_def masterKey0_def world0_def
  isMasterKey_def passphrase_seven_tenths profileRow_def marketRow_def

lemma run_profile_ok:
  "createProfileIdentity (echo_env [masterKey0] (alice [])) (alice []) (world0 []) =
     (Inr (profileRow ''profiles/alice'' ''abandon ability''),
      (world0 [])\<lparr> rng_pos := 24,
        rows := [profileRow ''profiles/alice'' ''abandon ability''], next_id := 2,
        trace :=
          [CreateAndLoadWalletEv ''profiles/alice'' False True (Inr \<lparr>rpcwallet_name = ''profiles/alice''\<rparr>),
           MnemonicEv [PStr ''new'', PStr ''999999999999999999999999'', PStr ''english'', PNum 32, PBool True]
             (Inr \<lparr>rpcmnemonic_mnemonic = ''abandon ability''\<rparr>),
           ExtKeyGenesisImportEv ''profiles/alice''
             [PStr ''abandon ability'', PStr ''999999999999999999999999''] (Inr ()),
           ExtKeyListEv ''profiles/alice'' True (Inr [masterKey0]),
           GetNewAddressEv ''profiles/alice'' (Inr ''pNew''),
           GetWalletInfoEv ''profiles/alice'' (Inr \<lparr>walletinfo_hdseedid = ''seed2''\<rparr>),
           StoreCreateEv
             \<lparr> cr_profile_id = 1, cr_wallet = ''profiles/alice'', cr_address = ''pNew'',
               cr_hdseedid = Some ''seed2'', cr_path = Some ''m/44h/44h'',
               cr_mnemonic = Some ''abandon ability'',
               cr_passphrase = Some ''999999999999999999999999'', cr_type = PROFILE \<rparr>] \<rparr>)"
  unfolding run_defs by (simp add: fixture_defs)

lemma run_profile_nokey:
  "createProfileIdentity (echo_env [] (alice [])) (alice []) (world0 []) =
     (Inl (MessageException ''Could not find Profile wallets Master key.''),
      (world0 [])\<lparr> rng_pos := 24,
        trace :=
          [CreateAndLoadWalletEv ''profiles/alice'' False True (Inr \<lparr>rpcwallet_name = ''profiles/alice''\<rparr>),
           MnemonicEv [PStr ''new'', PStr ''999999999999999999999999'', PStr ''english'', PNum 32, PBool True]
             (Inr \<lparr>rpcmnemonic_mnemonic = ''abandon ability''\<rparr>),
           ExtKeyGenesisImportEv ''profiles/alice''
             [PStr ''abandon ability'', PStr ''999999999999999999999999''] (Inr ()),
           ExtKeyListEv ''profiles/alice'' True (Inr [])] \<rparr>)"
  unfolding run_defs by (simp add: fixture_defs)


lemma run_profile_relabel:
  "createProfileIdentity (relabel_env [masterKey0] (alice [])) (alice []) (world0 []) =
     (Inr (profileRow ''w7'' []),
      (world0 [])\<lparr> rng_pos := 24, rows := [profileRow ''w7'' []], next_id := 2,
        trace :=
          [CreateAndLoadWalletEv ''profiles/alice'' False True (Inr \<lparr>rpcwallet_name = ''w7''\<rparr>),
           MnemonicEv [PStr ''new'', PStr ''999999999999999999999999'', PStr ''english'', PNum 32, PBool True]
             (Inr \<lparr>rpcmnemonic_mnemonic = []\<rparr>),
           ExtKeyGenesisImportEv ''w7'' [PStr [], PStr ''999999999999999999999999''] (Inr ()),
           ExtKeyListEv ''w7'' True (Inr [masterKey0]),
           GetNewAddressEv ''w7'' (Inr ''pNew''),
           GetWalletInfoEv ''profiles/alice'' (Inr \<lparr>walletinfo_hdseedid = ''seed2''\<rparr>),
           StoreCreateEv
             \<lparr> cr_profile_id = 1, cr_wallet = ''w7'', cr_address = ''pNew'',
               cr_hdseedid = Some ''seed2'', cr_path = Some ''m/44h/44h'',
               cr_mnemonic = Some [],
               cr_passphrase = Some ''999999999999999999999999'', cr_type = PROFILE \<rparr>] \<rparr>)"
  unfolding run_defs by (simp add: fixture_defs)

lemma run_market_ok:
  "createMarketIdentityForProfile (echo_env [masterKey0] (alice [aliceIdentity]))
       (alice [aliceIdentity]) (world0 [aliceIdentity]) =
     (Inr (marketRow ''profiles/alice/particl-market'' marketAccountPath),
      (world0 [aliceIdentity])\<lparr>
        rows := [aliceIdentity, marketRow ''profiles/alice/particl-market'' marketAccountPath],
        next_id := 3,
        trace := marketEvents ''profiles/alice/particl-market'' marketAccountPath \<rparr>)"
  unfolding run_defs by (simp add: fixture_defs marketEvents_def)

lemma run_market_relabel:
  "createMarketIdentityForProfile (relabel_env [masterKey0] (alice [aliceIdentity]))
       (alice [aliceIdentity]) (world0 [aliceIdentity]) =
     (Inr (marketRow ''w7'' ''m/4444446h/0h''),
      (world0 [aliceIdentity])\<lparr>
        rows := [aliceIdentity, marketRow ''w7'' ''m/4444446h/0h''],
        next_id := 3,
        trace := marketEvents ''w7'' ''m/4444446h/0h'' \<rparr>)"
  unfolding run_defs by (simp add: fixture_defs marketEvents_def)

lemma run_market_nokey:
  "createMarketIdentityForProfile (echo_env [] (alice [aliceIdentity]))
       (alice [aliceIdentity]) (world0 [aliceIdentity]) =
     (Inl (MessageException ''Could not find Profile wallets Master key.''),
      (world0 [aliceIdentity])\<lparr> trace := [ExtKeyListEv ''profiles/alice'' True (Inr [])] \<rparr>)"
  unfolding run_defs by (simp add: fixture_defs)

lemma run_update:
  "bindE (update (echo_env [] (alice [aliceIdentity])) 1 updateRequest0)
         (\<lambda>_. findOne (echo_env [] (alice [aliceIdentity])) 1 True) (world0 [aliceIdentity]) =
     (Inr \<lparr> identity_id = 1, identity_profile_id = 1, identity_wallet = ''profiles/alice2'',
             identity_address = ''pAlice2'', identity_hdseedid = Some ''seed9'',
             identity_path = Some ''seed9'', identity_mnemonic = Some ''zoo zone'',
             identity_passphrase = Some ''hunter2'', identity_type = PROFILE \<rparr>,
      (world0 [])\<lparr> rows :=
          [\<lparr> identity_id = 1, identity_profile_id = 1, identity_wallet = ''profiles/alice2'',
             identity_address = ''pAlice2'', identity_hdseedid = Some ''seed9'',
             identity_path = Some ''seed9'', identity_mnemonic = Some ''zoo zone'',
             identity_passphrase = Some ''hunter2'', identity_type = PROFILE \<rparr>],
          next_id := 2,
          trace := [StoreUpdateEv 1
            \<lparr> identity_id = 1, identity_profile_id = 1, identity_wallet = ''profiles/alice2'',
             identity_address = ''pAlice2'', identity_hdseedid = Some ''seed9'',
             identity_path = Some ''seed9'', identity_mnemonic = Some ''zoo zone'',
             identity_passphrase = Some ''hunter2'', identity_type = PROFILE \<rparr>] \<rparr>)"
  unfolding update_def findOne_def repo_update_def run_defs
  by (simp add: fixture_defs updateRequest0_def)


section \<open>Lookups\<close>

text \<open>
  Claim C7. When the profile service finds the profile and none of its identities has
  the role PROFILE, \<open>findProfileIdentity\<close> throws \<open>ModelNotFoundException('Identity')\<close>
  and changes nothing. That is another exception than the \<open>NotFoundException\<close> that
  \<open>findOne\<close> throws for an id the repository does not hold.
\<close>

theorem findProfileIdentity_no_profile_role:
  assumes "profileService_findOne env profileId True (node s) = Inr profile"
      and "filter (\<lambda>p. identity_type p = PROFILE) (profile_Identities profile) = []"
      and "repo_findOne i withRelated s = None"
  shows "findProfileIdentity env profileId withRelated s = (Inl (ModelNotFoundException ''Identity''), s)
       \<and> findOne env i withRelated s = (Inl (NotFoundException (IdKey i)), s)
       \<and> (\<forall>k. ModelNotFoundException ''Identity'' \<noteq> NotFoundException k)"
proof -
  have "find (\<lambda>p. identity_type p = PROFILE) (profile_Identities profile) = None"
    using assms(2) by (simp add: find_None_iff filter_empty_conv)
  then show ?thesis using assms(1,3)
    by (simp add: findProfileIdentity_def findOne_def)
qed

text \<open>Alice without identities, and the id 7 in an empty table.\<close>

theorem findProfileIdentity_no_profile_role_witness:
  "findProfileIdentity (echo_env [] (alice [])) 1 True (world0 [])
       = (Inl (ModelNotFoundException ''Identity''), world0 [])
   \<and> findOne (echo_env [] (alice [])) 7 True (world0 []) = (Inl (NotFoundException (IdKey 7)), world0 [])"
  using findProfileIdentity_no_profile_role
          [of "echo_env [] (alice [])" 1 "world0 []" "alice []" 7 True]
  by (simp add: echo_env_def alice_def world0_def repo_findOne_def)

text \<open>
  Claim C9. \<open>findProfileIdentity\<close> does not check the repository's answer: when the
  profile lists a PROFILE identity whose id the repository does not hold, it returns
  the repository's \<open>null\<close> and throws nothing, whereas \<open>findOne\<close>,
  \<open>findOneByWalletName\<close> and \<open>findOneByAddress\<close> throw \<open>NotFoundException\<close> on
  \<open>null\<close>.
\<close>

theorem findProfileIdentity_returns_null:
  assumes "profileService_findOne env profileId True (node s) = Inr profile"
      and "find (\<lambda>p. identity_type p = PROFILE) (profile_Identities profile) = Some p"
      and "repo_findOne (identity_id p) withRelated s = None"
      and "repo_findOneByWalletName w withRelated s = None"
      and "repo_findOneByAddress a withRelated s = None"
  shows "findProfileIdentity env profileId withRelated s = (Inr None, s)
       \<and> findOne env (identity_id p) withRelated s = (Inl (NotFoundException (IdKey (identity_id p))), s)
       \<and> findOneByWalletName env w withRelated s = (Inl (NotFoundException (StrKey w)), s)
       \<and> findOneByAddress env a withRelated s = (Inl (NotFoundException (StrKey a)), s)"
  using assms
  by (simp add: findProfileIdentity_def findOne_def findOneByWalletName_def findOneByAddress_def)

text \<open>Alice's profile lists her identity, and the identity table is empty.\<close>

theorem findProfileIdentity_returns_null_witness:
  "findProfileIdentity (echo_env [] (alice [aliceIdentity])) 1 True (world0 []) = (Inr None, world0 [])
   \<and> findOne (echo_env [] (alice [aliceIdentity])) 1 True (world0 [])
        = (Inl (NotFoundException (IdKey 1)), world0 [])"
  using findProfileIdentity_returns_null
          [of "echo_env [] (alice [aliceIdentity])" 1 "world0 []" "alice [aliceIdentity]"
              aliceIdentity True "''profiles/alice''" "''pAlice''"]
  by (simp add: echo_env_def alice_def aliceIdentity_def world0_def repo_findOne_def
        repo_findOneByWalletName_def repo_findOneByAddress_def)

section \<open>Update\<close>

text \<open>
  Claim C10. For an id the repository holds, a run of \<open>update\<close> leaves the row's id
  and profile id as they were: the row found afterwards under the id differs from the
  old one in no field other than wallet, address, hdseedid, path, mnemonic, passphrase
  and type. (A body that fails validation leaves the row as it was.)
\<close>

theorem update_keeps_id_and_profile:
  assumes present: "repo_findOne i False s = Some old"
      and run: "update env i req s = (res, s')"
  shows "\<exists>new. repo_findOne i True s' = Some new
           \<and> identity_id new = identity_id old
           \<and> identity_profile_id new = identity_profile_id old
           \<and> new\<lparr> identity_wallet := identity_wallet old,
                   identity_address := identity_address old,
                   identity_hdseedid := identity_hdseedid old,
                   identity_path := identity_path old,
                   identity_mnemonic := identity_mnemonic old,
                   identity_passphrase := identity_passphrase old,
                   identity_type := identity_type old \<rparr> = old
           \<and> (if valid_update env req then res = Inr (Some new)
               else res = Inl ValidationException \<and> new = old)"
proof (cases "valid_update env req")
  case False
  then have "res = Inl ValidationException" "s' = s"
    using run by (auto simp: update_def throwE_def)
  then show ?thesis using present False by (simp add: repo_findOne_def)
next
  case True
  let ?data = "old\<lparr> identity_wallet := upd_wallet req, identity_address := upd_address req,
                     identity_hdseedid := upd_hdseedid req, identity_path := upd_hdseedid req,
                     identity_mnemonic := upd_mnemonic req, identity_passphrase := upd_passphrase req,
                     identity_type := upd_type req \<rparr>"
  have fnd: "find (\<lambda>r. identity_id r = i) (rows s) = Some old"
    using present by (simp add: repo_findOne_def)
  then have idold: "identity_id old = i" by (auto simp: find_Some_iff)
  then have "identity_id ?data = i" by simp
  from find_map_replace [of "\<lambda>r. identity_id r = i", OF fnd this]
  have after: "find (\<lambda>r. identity_id r = i) (map (\<lambda>r. if identity_id r = i then ?data else r) (rows s)) = Some ?data" .
  have "update env i req s = repo_update i ?data s"
    using True present by (simp add: update_def bindE_def findOne_def)
  then have "res = Inr (Some ?data)" "repo_findOne i True s' = Some ?data"
    using run after by (auto simp: repo_update_def Let_def repo_findOne_def)
  then show ?thesis using True by simp
qed

text \<open>Alice's row under the request \<open>updateRequest0\<close>.\<close>

theorem update_keeps_id_and_profile_witness:
  "\<exists>new. repo_findOne 1 True
            (snd (update (echo_env [] (alice [aliceIdentity])) 1 updateRequest0
                    (world0 [aliceIdentity]))) = Some new
         \<and> identity_id new = identity_id aliceIdentity
         \<and> identity_profile_id new = identity_profile_id aliceIdentity
         \<and> fst (update (echo_env [] (alice [aliceIdentity])) 1 updateRequest0
                    (world0 [aliceIdentity])) = Inr (Some new)"
proof -
  let ?env = "echo_env [] (alice [aliceIdentity])"
  let ?run = "update ?env 1 updateRequest0 (world0 [aliceIdentity])"
  have present: "repo_findOne 1 False (world0 [aliceIdentity]) = Some aliceIdentity"
    by (simp add: repo_findOne_def world0_def aliceIdentity_def)
  have run: "?run = (fst ?run, snd ?run)" by simp
  have valid: "valid_update ?env updateRequest0"
    by (simp add: echo_env_def updateRequest0_def)
  from update_keeps_id_and_profile [OF present run] valid show ?thesis by auto
qed

text \<open>
  Claim C2. \<open>update\<close> followed by \<open>findOne\<close> does not return the request's path:
  the setter of \<open>Path\<close> is given \<open>body.hdseedid\<close>. For the request
  \<open>updateRequest0\<close>, whose path is \<open>m/44h/1h\<close> and whose hdseedid is \<open>seed9\<close>,
  the row read back has the path \<open>seed9\<close>.
\<close>

theorem update_writes_hdseedid_into_path:
  "fst (bindE (update (echo_env [] (alice [aliceIdentity])) 1 updateRequest0)
          (\<lambda>_. findOne (echo_env [] (alice [aliceIdentity])) 1 True)
          (world0 [aliceIdentity])) =
     Inr \<lparr> identity_id = 1, identity_profile_id = 1, identity_wallet = ''profiles/alice2'',
           identity_address = ''pAlice2'', identity_hdseedid = Some ''seed9'',
           identity_path = Some ''seed9'', identity_mnemonic = Some ''zoo zone'',
           identity_passphrase = Some ''hunter2'', identity_type = PROFILE \<rparr>
   \<and> upd_path updateRequest0 = Some ''m/44h/1h''
   \<and> upd_hdseedid updateRequest0 = Some ''seed9''"
  unfolding run_update by (simp add: updateRequest0_def)

section \<open>The passphrase generator\<close>

text \<open>
  Claim C8. Called with length 24 in a state whose random stream holds doubles below 1,
  \<open>createRandom\<close> returns, for every setting of the four class flags, a string and
  consumes 24 draws. If at least one class is enabled the string has exactly 24
  characters, each from the union of the enabled classes; if all four classes are
  disabled the string is empty.
\<close>

theorem createRandom_24:
  assumes "\<forall>i. unit_double (rng s i)"
  shows "\<exists>p. createRandom 24 caps lower numbers unique s = (Inr p, s\<lparr>rng_pos := rng_pos s + 24\<rparr>) \<and>
      (caps \<or> lower \<or> numbers \<or> unique \<longrightarrow>
         length p = 24 \<and>
         set p \<subseteq> set (capsChars caps) \<union> set (lowerChars lower) \<union> set (numChars numbers)
                   \<union> set (uniqueChars unique)) \<and>
      (\<not> caps \<and> \<not> lower \<and> \<not> numbers \<and> \<not> unique \<longrightarrow> p = [])"
  using assms by (rule createRandom_draws)

text \<open>
  Digits only, and no class enabled, on the constant stream \<open>seven_tenths\<close>: the
  24 draws compute \<open>0.7 * 10\<close>, which is rounded to 7, so the string is 24 sevens.
\<close>

theorem createRandom_24_witness:
  "(\<exists>p. createRandom 24 False False True False (world0 []) = (Inr p, (world0 [])\<lparr>rng_pos := 24\<rparr>)
        \<and> length p = 24
        \<and> set p \<subseteq> set ''0123456789'')
   \<and> createRandom 24 False False True False (world0 [])
        = (Inr ''777777777777777777777777'', (world0 [])\<lparr>rng_pos := 24\<rparr>)
   \<and> createRandom 24 False False False False (world0 []) = (Inr [], (world0 [])\<lparr>rng_pos := 24\<rparr>)"
proof -
  have rnd: "\<forall>i. unit_double (rng (world0 []) i)"
    by (simp add: world0_def seven_tenths_unit)
  have pos: "rng_pos (world0 []) = 0" by (simp add: world0_def)
  from createRandom_24 [OF rnd, of False False True False]
  have a: "\<exists>p. createRandom 24 False False True False (world0 []) = (Inr p, (world0 [])\<lparr>rng_pos := 24\<rparr>)
        \<and> length p = 24
        \<and> set p \<subseteq> set ''0123456789''"
    unfolding pos by (simp add: capsChars_def lowerChars_def numChars_def uniqueChars_def)
  from createRandom_24 [OF rnd, of False False False False]
  have b: "createRandom 24 False False False False (world0 []) = (Inr [], (world0 [])\<lparr>rng_pos := 24\<rparr>)"
    unfolding pos by simp
  from a b digits_seven_tenths [of "[]"] show ?thesis by simp
qed

section \<open>Summaries of the two provisioning methods\<close>

text \<open>
  Each summary is stated on the pair a run returns and proved by unfolding the method
  and splitting on every outcome of every call.
\<close>

lemmas unfold_run =
  createProfileIdentity_def createMarketIdentityForProfile_def findProfileIdentity_def
  coreRpc_defs bindE_def rpc_call_def create_def repo_create_def throwE_def
  new_row_def Let_def createRandom_default mnemonicParams_def new_events_def

lemma profile_missing_master_key:
  "case createProfileIdentity env profile s of (res, s') \<Rightarrow>
     (ExtKeyListEv w f (Inr keys) \<in> set (new_events s s') \<longrightarrow> find isMasterKey keys = None \<longrightarrow>
       res = Inl masterKeyMissing \<and> rows s' = rows s \<and> next_id s' = next_id s \<and>
         (\<forall>body. StoreCreateEv body \<notin> set (new_events s s')))"
  unfolding unfold_run
  by (simp split: prod.split sum.split option.split)

lemma market_missing_master_key:
  "case createMarketIdentityForProfile env profile s of (res, s') \<Rightarrow>
     (ExtKeyListEv w f (Inr keys) \<in> set (new_events s s') \<longrightarrow> find isMasterKey keys = None \<longrightarrow>
       res = Inl masterKeyMissing \<and> rows s' = rows s \<and> next_id s' = next_id s \<and>
         (\<forall>body. StoreCreateEv body \<notin> set (new_events s s')))"
  unfolding unfold_run
  by (simp split: prod.split sum.split option.split)

lemma market_success:
  "case createMarketIdentityForProfile env profile s of
     (Inl e, s') \<Rightarrow> True
   | (Inr r, s') \<Rightarrow>
       identity_type r = MARKET \<and> identity_mnemonic r = None \<and> identity_passphrase r = None \<and>
       identity_profile_id r = profile_id profile \<and> rows s' = rows s @ [r] \<and>
       (\<exists>w k info. ExtKeyInfoEv w k marketAccountPath (Inr info) \<in> set (new_events s s')) \<and>
       (\<forall>w k p res. ExtKeyInfoEv w k p res \<in> set (new_events s s') \<longrightarrow>
          p = marketAccountPath \<and>
          (\<exists>info. res = Inr info \<and> identity_path r = Some (keyresult_key_info_path info)))"
  unfolding unfold_run
  by (simp split: prod.split sum.split option.split)

lemma profile_success:
  "case createProfileIdentity env profile s of
     (Inl e, s') \<Rightarrow> True
   | (Inr r, s') \<Rightarrow>
       identity_type r = PROFILE \<and> identity_profile_id r = profile_id profile \<and>
       rows s' = rows s @ [r] \<and>
       identity_passphrase r = Some (generated_passphrase s) \<and>
       (\<exists>w. CreateAndLoadWalletEv (''profiles/'' @ profile_name profile) False True (Inr w)
               \<in> set (new_events s s') \<and>
             identity_wallet r = rpcwallet_name w) \<and>
       (\<exists>ps m. MnemonicEv ps (Inr m) \<in> set (new_events s s') \<and>
             identity_mnemonic r = Some (rpcmnemonic_mnemonic m))"
  unfolding unfold_run
  by (simp split: prod.split sum.split option.split)


lemma generated_passphrase_length:
  assumes "\<forall>i. unit_double (rng s i)"
  shows "length (generated_passphrase s) = 24"
  using createRandom_draws [OF assms, of True True True True]
  by (auto simp: createRandom_default)

section \<open>Provisioning\<close>

text \<open>
  Claim C1. In a run of \<open>createProfileIdentity\<close> or of
  \<open>createMarketIdentityForProfile\<close> in which \<open>extKeyList\<close> returned a listing with no
  key of type \<open>Loose\<close>, key type \<open>Master\<close>, label \<open>Master Key - bip44 derived.\<close>
  and \<open>current_master\<close> equal to \<open>'true'\<close>, the method throws the
  \<open>MessageException\<close> about the missing master key, the identity table is as it
  was, and the repository's \<open>create\<close> was not called.
\<close>

theorem missing_master_key_aborts:
  assumes which: "run = createProfileIdentity env profile \<or>
                  run = createMarketIdentityForProfile env profile"
      and run: "run s = (res, s')"
      and listing: "ExtKeyListEv w f (Inr keys) \<in> set (new_events s s')"
      and no_master: "\<forall>k \<in> set keys.
              \<not> (extkey_type k = ''Loose'' \<and> extkey_key_type k = ''Master'' \<and>
                 extkey_label k = ''Master Key - bip44 derived.'' \<and>
                 extkey_current_master k = Some ''true'')"
  shows "res = Inl (MessageException ''Could not find Profile wallets Master key.'') \<and>
         rows s' = rows s \<and> next_id s' = next_id s \<and>
         (\<forall>body. StoreCreateEv body \<notin> set (new_events s s'))"
proof -
  have none: "find isMasterKey keys = None"
    using no_master by (simp add: find_None_iff isMasterKey_def)
  from which show ?thesis
  proof
    assume "run = createProfileIdentity env profile"
    with run have "createProfileIdentity env profile s = (res, s')" by simp
    with profile_missing_master_key [where env=env and profile=profile and s=s and w=w and f=f and keys=keys] listing none
    show ?thesis by (simp add: masterKeyMissing_def)
  next
    assume "run = createMarketIdentityForProfile env profile"
    with run have "createMarketIdentityForProfile env profile s = (res, s')" by simp
    with market_missing_master_key [where env=env and profile=profile and s=s and w=w and f=f and keys=keys] listing none
    show ?thesis by (simp add: masterKeyMissing_def)
  qed
qed

text \<open>
  Both methods on a daemon that lists no key: for alice without identities, and for
  alice with her profile identity.
\<close>

theorem missing_master_key_aborts_witness:
  "fst (createProfileIdentity (echo_env [] (alice [])) (alice []) (world0 []))
     = Inl (MessageException ''Could not find Profile wallets Master key.'') \<and>
   rows (snd (createProfileIdentity (echo_env [] (alice [])) (alice []) (world0 []))) = [] \<and>
   fst (createMarketIdentityForProfile (echo_env [] (alice [aliceIdentity]))
          (alice [aliceIdentity]) (world0 [aliceIdentity]))
     = Inl (MessageException ''Could not find Profile wallets Master key.'') \<and>
   rows (snd (createMarketIdentityForProfile (echo_env [] (alice [aliceIdentity]))
          (alice [aliceIdentity]) (world0 [aliceIdentity]))) = [aliceIdentity]"
proof -
  let ?e1 = "echo_env [] (alice [])" and ?e2 = "echo_env [] (alice [aliceIdentity])"
  let ?r1 = "createProfileIdentity ?e1 (alice [])"
  let ?r2 = "createMarketIdentityForProfile ?e2 (alice [aliceIdentity])"
  have l1: "ExtKeyListEv ''profiles/alice'' True (Inr [])
              \<in> set (new_events (world0 []) (snd (?r1 (world0 []))))"
    unfolding run_profile_nokey by (simp add: new_events_def world0_def)
  have l2: "ExtKeyListEv ''profiles/alice'' True (Inr [])
              \<in> set (new_events (world0 [aliceIdentity]) (snd (?r2 (world0 [aliceIdentity]))))"
    unfolding run_market_nokey by (simp add: new_events_def world0_def)
  have a: "fst (?r1 (world0 [])) = Inl (MessageException ''Could not find Profile wallets Master key.'')
           \<and> rows (snd (?r1 (world0 []))) = rows (world0 [])"
    using missing_master_key_aborts [of ?r1 ?e1 "alice []" "world0 []" "fst (?r1 (world0 []))"
        "snd (?r1 (world0 []))" "''profiles/alice''" True "[]"] l1
    by simp
  have b: "fst (?r2 (world0 [aliceIdentity]))
             = Inl (MessageException ''Could not find Profile wallets Master key.'')
           \<and> rows (snd (?r2 (world0 [aliceIdentity]))) = rows (world0 [aliceIdentity])"
    using missing_master_key_aborts [of ?r2 ?e2 "alice [aliceIdentity]" "world0 [aliceIdentity]"
        "fst (?r2 (world0 [aliceIdentity]))" "snd (?r2 (world0 [aliceIdentity]))"
        "''profiles/alice''" True "[]"] l2
    by simp
  show ?thesis using a b by (simp add: world0_def)
qed

text \<open>
  Claim C3. \<open>createMarketIdentityForProfile\<close> calls \<open>extKeyAltVersion\<close> on the
  master key and does not use the answer: \<open>extKeyImport\<close> is given
  \<open>masterKey.evkey\<close>. On a daemon whose alternate form of \<open>xparEV\<close> is
  \<open>alt:xparEV\<close>, the run succeeds and the key it imports is \<open>xparEV\<close>.
\<close>

theorem market_import_takes_evkey:
  "fst (createMarketIdentityForProfile (echo_env [masterKey0] (alice [aliceIdentity]))
          (alice [aliceIdentity]) (world0 [aliceIdentity]))
     = Inr (marketRow ''profiles/alice/particl-market'' marketAccountPath) \<and>
   filter (\<lambda>e. event_name e = ''extKeyAltVersion'' \<or> event_name e = ''extKeyImport'')
     (new_events (world0 [aliceIdentity])
        (snd (createMarketIdentityForProfile (echo_env [masterKey0] (alice [aliceIdentity]))
                (alice [aliceIdentity]) (world0 [aliceIdentity]))))
     = [ExtKeyAltVersionEv ''xparEV'' (Inr ''alt:xparEV''),
        ExtKeyImportEv ''profiles/alice/particl-market'' ''xparEV'' ''master key'' True
          (Inr \<lparr>keyresult_id = ''k1'', keyresult_account = ''a0'',
                 keyresult_key_info_path = []\<rparr>)]"
  unfolding run_market_ok
  by (simp add: new_events_def world0_def marketEvents_def)

text \<open>
  Claim C4, as amended. A successful \<open>createMarketIdentityForProfile\<close> appends to the
  identity table, and returns, a row of type MARKET with no mnemonic and no
  passphrase, owned by the profile; it asked \<open>extKeyInfo\<close> for the fixed path
  \<open>4444446'/0'\<close>, once, and the row's path is the path that this call's answer
  reported in \<open>key_info.path\<close>.
\<close>

theorem market_identity_record:
  assumes run: "createMarketIdentityForProfile env profile s = (Inr r, s')"
  shows "identity_type r = MARKET \<and> identity_mnemonic r = None \<and> identity_passphrase r = None \<and>
         identity_profile_id r = profile_id profile \<and> rows s' = rows s @ [r] \<and>
         (\<exists>w k info. ExtKeyInfoEv w k marketAccountPath (Inr info) \<in> set (new_events s s')) \<and>
         (\<forall>w k p res. ExtKeyInfoEv w k p res \<in> set (new_events s s') \<longrightarrow>
            p = marketAccountPath \<and>
            (\<exists>info. res = Inr info \<and> identity_path r = Some (keyresult_key_info_path info)))"
  using market_success [where env=env and profile=profile and s=s] run by simp

text \<open>On the daemon that answers with the requested path, the row's path is that path.\<close>

theorem market_identity_record_witness:
  "identity_type (marketRow ''profiles/alice/particl-market'' marketAccountPath) = MARKET \<and>
   identity_mnemonic (marketRow ''profiles/alice/particl-market'' marketAccountPath) = None \<and>
   identity_passphrase (marketRow ''profiles/alice/particl-market'' marketAccountPath) = None \<and>
   identity_path (marketRow ''profiles/alice/particl-market'' marketAccountPath)
     = Some marketAccountPath \<and>
   rows (snd (createMarketIdentityForProfile (echo_env [masterKey0] (alice [aliceIdentity]))
                (alice [aliceIdentity]) (world0 [aliceIdentity])))
     = [aliceIdentity, marketRow ''profiles/alice/particl-market'' marketAccountPath]"
  using market_identity_record [OF run_market_ok]
  unfolding run_market_ok
  by (simp add: marketRow_def world0_def)

text \<open>
  The claim as it was stated fails on a daemon whose \<open>extKeyInfo\<close> reports the path
  in another notation: the request carries \<open>4444446'/0'\<close>, the row stores the
  reported \<open>m/4444446h/0h\<close>.
\<close>

theorem market_path_counterexample:
  "fst (createMarketIdentityForProfile (relabel_env [masterKey0] (alice [aliceIdentity]))
          (alice [aliceIdentity]) (world0 [aliceIdentity]))
     = Inr \<lparr> identity_id = 2, identity_profile_id = 1, identity_wallet = ''w7'',
             identity_address = ''pNew'', identity_hdseedid = Some ''seed2'',
             identity_path = Some ''m/4444446h/0h'', identity_mnemonic = None,
             identity_passphrase = None, identity_type = MARKET \<rparr> \<and>
   filter (\<lambda>e. event_name e = ''extKeyInfo'')
     (new_events (world0 [aliceIdentity])
        (snd (createMarketIdentityForProfile (relabel_env [masterKey0] (alice [aliceIdentity]))
                (alice [aliceIdentity]) (world0 [aliceIdentity]))))
     = [ExtKeyInfoEv ''profiles/alice'' ''xparEV'' marketAccountPath
          (Inr \<lparr>keyresult_id = ''k0'', keyresult_account = ''a0'',
                 keyresult_key_info_path = ''m/4444446h/0h''\<rparr>)] \<and>
   ''m/4444446h/0h'' \<noteq> marketAccountPath"
  unfolding run_market_relabel
  by (simp add: new_events_def world0_def marketEvents_def marketRow_def marketAccountPath_def)

text \<open>
  Claim C5, as amended. In a state whose random stream holds doubles below 1, a
  successful \<open>createProfileIdentity\<close> appends to the identity table, and returns, a
  row of type PROFILE owned by the profile, with a passphrase of 24 characters; its
  wallet is the name the daemon reported for the wallet it was asked to create as
  \<open>'profiles/' + profile.name\<close>, and its mnemonic is the one the daemon's
  \<open>mnemonic\<close> call returned.
\<close>

theorem profile_identity_record:
  assumes rnd: "\<forall>i. unit_double (rng s i)"
      and run: "createProfileIdentity env profile s = (Inr r, s')"
  shows "identity_type r = PROFILE \<and> identity_profile_id r = profile_id profile \<and>
         rows s' = rows s @ [r] \<and>
         (\<exists>pp. identity_passphrase r = Some pp \<and> length pp = 24 \<and> pp \<noteq> []) \<and>
         (\<exists>w. CreateAndLoadWalletEv (''profiles/'' @ profile_name profile) False True (Inr w)
                 \<in> set (new_events s s') \<and>
               identity_wallet r = rpcwallet_name w) \<and>
         (\<exists>ps m. MnemonicEv ps (Inr m) \<in> set (new_events s s') \<and>
               identity_mnemonic r = Some (rpcmnemonic_mnemonic m))"
proof -
  have pp: "length (generated_passphrase s) = 24"
    using rnd by (rule generated_passphrase_length)
  then have ne: "generated_passphrase s \<noteq> []" by auto
  from profile_success [where env=env and profile=profile and s=s] run pp ne
  show ?thesis by simp
qed

text \<open>Alice on the daemon that answers with the requested wallet name.\<close>

theorem profile_identity_record_witness:
  "identity_type (profileRow ''profiles/alice'' ''abandon ability'') = PROFILE \<and>
   identity_wallet (profileRow ''profiles/alice'' ''abandon ability'') = ''profiles/alice'' \<and>
   rows (snd (createProfileIdentity (echo_env [masterKey0] (alice [])) (alice []) (world0 [])))
     = [profileRow ''profiles/alice'' ''abandon ability''] \<and>
   (\<exists>pp. identity_passphrase (profileRow ''profiles/alice'' ''abandon ability'') = Some pp \<and>
         length pp = 24)"
proof -
  have rnd: "\<forall>i. unit_double (rng (world0 []) i)"
    by (simp add: world0_def seven_tenths_unit)
  note facts = profile_identity_record [OF rnd run_profile_ok]
  show ?thesis
    unfolding run_profile_ok using facts by (simp add: profileRow_def world0_def)
qed

text \<open>
  The claim as it was stated fails on a daemon that names the wallet itself and
  returns an empty mnemonic: the run succeeds, the row's wallet is \<open>w7\<close>, which does
  not embed the profile name \<open>alice\<close>, and its mnemonic is the empty string.
\<close>

theorem profile_identity_counterexample:
  "fst (createProfileIdentity (relabel_env [masterKey0] (alice [])) (alice []) (world0 []))
     = Inr \<lparr> identity_id = 1, identity_profile_id = 1, identity_wallet = ''w7'',
             identity_address = ''pNew'', identity_hdseedid = Some ''seed2'',
             identity_path = Some ''m/44h/44h'', identity_mnemonic = Some [],
             identity_passphrase = Some ''999999999999999999999999'',
             identity_type = PROFILE \<rparr> \<and>
   profile_name (alice []) = ''alice''"
  unfolding run_profile_relabel
  by (simp add: profileRow_def alice_def)




end
